theory Spec2Isabelle
  imports
    Complex_Main
    "HOL-Library.Multiset"
    "HOL-Library.Char_ord"
    "HOL-Library.List_Lexorder"
    "HOL-Library.Product_Lexorder"
begin

section \<open>CarbonLens: the data model of \<^verbatim>\<open>app.py\<close>\<close>

text \<open>
  The dashboard is one script, \<^verbatim>\<open>src/app.py\<close>: \<^verbatim>\<open>load_data\<close> reads and cleans the
  dataset, and four chart panels consume the cleaned table.

  Conventions of the embedding.
  \<^item> A data frame is the list of its rows, in frame order.
  \<^item> A float64 cell of one of the nine measure columns is a \<open>real option\<close>: \<open>None\<close> is
    NaN (missing), \<open>Some v\<close> a finite number. Rounding and overflow of float64 are not
    modelled: arithmetic on finite values is exact.
  \<^item> Where the script divides, the quotient is a \<open>flt\<close> (below), so that a zero divisor
    gives what float64 gives (an infinity or NaN) and not HOL's \<open>x / 0 = 0\<close>.
  \<^item> A string is a list of characters compared by code point, as Python compares
    \<^verbatim>\<open>str\<close>; \<open>length\<close> is \<^verbatim>\<open>len\<close>.
  \<^item> The columns \<^verbatim>\<open>country\<close> and \<^verbatim>\<open>year\<close> are taken to be present in every row, and
    the twelve columns the script names are taken to be columns of the file.
\<close>

datatype measure =
  Co2 | Co2_per_capita | Gdp | Population
  | Coal_co2 | Oil_co2 | Gas_co2 | Flaring_co2 | Cement_co2

text \<open>
  A cell of a measure column as \<^verbatim>\<open>pd.read_csv\<close> delivers it: a number, a text that the
  reader did not take for a number, or an empty field.
\<close>

datatype cell = Num real | Str string | NA

record raw_row =
  raw_iso_code :: "string option"
  raw_country :: string
  raw_year :: int
  raw_cells :: "measure \<Rightarrow> cell"

record row =
  iso_code :: "string option"
  country :: string
  year :: int
  vals :: "measure \<Rightarrow> real option"

text \<open>The exceptions that the script can raise on a file it has read.\<close>

datatype error = AttributeError | ValueError | KeyError

section \<open>\<^verbatim>\<open>load_data\<close>\<close>

text \<open>
  Line 9, \<^verbatim>\<open>df[df['iso_code'].str.len()==3]\<close>: the length of a missing code is NaN, and
  \<^verbatim>\<open>NaN == 3\<close> is false.
\<close>

definition iso3 :: "raw_row \<Rightarrow> bool" where
  "iso3 r = (case raw_iso_code r of None \<Rightarrow> False | Some s \<Rightarrow> length s = 3)"

text \<open>
  When the file has rows and every code is missing, the column is a float column and
  the accessor \<^verbatim>\<open>.str\<close> raises \<^verbatim>\<open>AttributeError\<close>.
\<close>

definition select_iso3 :: "raw_row list \<Rightarrow> error + raw_row list" where
  "select_iso3 raw =
     (if raw \<noteq> [] \<and> list_all (\<lambda>r. raw_iso_code r = None) raw
      then Inl AttributeError
      else Inr (filter iso3 raw))"

text \<open>
  Lines 10 to 13, \<^verbatim>\<open>pd.to_numeric(df[c], errors='coerce')\<close>: a number stays, a text is
  parsed and becomes NaN when it is no number. The parser of pandas is not part of the
  script; it is the parameter \<open>parse\<close>.
\<close>

definition to_numeric :: "(string \<Rightarrow> real option) \<Rightarrow> cell \<Rightarrow> real option" where
  "to_numeric parse c = (case c of Num v \<Rightarrow> Some v | Str s \<Rightarrow> parse s | NA \<Rightarrow> None)"

definition coerce :: "(string \<Rightarrow> real option) \<Rightarrow> raw_row \<Rightarrow> row" where
  "coerce parse r =
     \<lparr>iso_code = raw_iso_code r, country = raw_country r, year = raw_year r,
      vals = (\<lambda>m. to_numeric parse (raw_cells r m))\<rparr>"

text \<open>
  Line 14, \<^verbatim>\<open>df.sort_values(['country','year'])\<close>: with more than one key pandas sorts
  lexicographically and stably, ascending.
\<close>

definition sort_values :: "row list \<Rightarrow> row list" where
  "sort_values df = sort_key (\<lambda>r. (country r, year r)) df"

text \<open>
  \<^verbatim>\<open>Series.interpolate()\<close> with its defaults (\<^verbatim>\<open>method='linear'\<close>,
  \<^verbatim>\<open>limit_direction='forward'\<close>): the index is ignored and the values are treated as
  equally spaced, so the axis is the position in the series. A NaN between two valid
  entries at positions \<open>p < i < q\<close> becomes \<open>s[p] + (i - p) / (q - p) * (s[q] - s[p])\<close>; a NaN
  after the last valid entry becomes that entry; a NaN before the first valid entry stays.

  \<open>next_valid xs\<close> is the first valid entry of \<open>xs\<close> with its position.
  In \<open>interp_aux prev xs\<close>, \<open>prev\<close> is the last valid entry before \<open>xs\<close> with the distance
  back to it.
\<close>

fun next_valid :: "real option list \<Rightarrow> (nat \<times> real) option" where
  "next_valid [] = None"
| "next_valid (Some v # xs) = Some (0, v)"
| "next_valid (None # xs) = map_option (\<lambda>(k, v). (Suc k, v)) (next_valid xs)"

fun interp_aux :: "(nat \<times> real) option \<Rightarrow> real option list \<Rightarrow> real option list" where
  "interp_aux prev [] = []"
| "interp_aux prev (Some v # xs) = Some v # interp_aux (Some (1, v)) xs"
| "interp_aux prev (None # xs) =
     (case prev of
        None \<Rightarrow> None
      | Some (d, a) \<Rightarrow>
          (case next_valid xs of
             None \<Rightarrow> Some a
           | Some (k, b) \<Rightarrow> Some (a + real d / real (d + k + 1) * (b - a))))
     # interp_aux (map_option (\<lambda>(d, a). (Suc d, a)) prev) xs"

definition interpolate :: "real option list \<Rightarrow> real option list" where
  "interpolate s = interp_aux None s"

text \<open>\<^verbatim>\<open>ffill\<close> carries the last valid entry forward, \<^verbatim>\<open>bfill\<close> the next one backward.\<close>

fun ffill_from :: "real option \<Rightarrow> real option list \<Rightarrow> real option list" where
  "ffill_from l [] = []"
| "ffill_from l (Some v # xs) = Some v # ffill_from (Some v) xs"
| "ffill_from l (None # xs) = l # ffill_from l xs"

definition ffill :: "real option list \<Rightarrow> real option list" where
  "ffill s = ffill_from None s"

fun bfill :: "real option list \<Rightarrow> real option list" where
  "bfill [] = []"
| "bfill (Some v # xs) = Some v # bfill xs"
| "bfill (None # xs) =
     (case bfill xs of [] \<Rightarrow> [None] | y # ys \<Rightarrow> y # y # ys)"

text \<open>Line 19, the function given to \<^verbatim>\<open>transform\<close>.\<close>

definition fill :: "real option list \<Rightarrow> real option list" where
  "fill s = bfill (ffill (interpolate s))"

text \<open>
  \<open>group_series c m df\<close> is the column \<open>m\<close> of the group of country \<open>c\<close>, in frame order,
  and \<open>group_years\<close> the years of the same rows.
\<close>

definition group_series :: "string \<Rightarrow> measure \<Rightarrow> row list \<Rightarrow> real option list" where
  "group_series c m df = map (\<lambda>r. vals r m) (filter (\<lambda>r. country r = c) df)"

definition group_years :: "string \<Rightarrow> row list \<Rightarrow> int list" where
  "group_years c df = map year (filter (\<lambda>r. country r = c) df)"

text \<open>
  Lines 15 to 20, \<^verbatim>\<open>df.groupby('country')[cols].transform(f)\<close> assigned back to the nine
  columns: \<open>f\<close> is applied to each column of each group, and every row receives the entry
  of the result at the row's position in its group. \<open>seen\<close> holds the rows already passed.
  On a frame without rows there is no group, and \<^verbatim>\<open>transform\<close> raises \<^verbatim>\<open>ValueError\<close>.
\<close>

fun transform_aux ::
  "(real option list \<Rightarrow> real option list) \<Rightarrow> row list \<Rightarrow> row list \<Rightarrow> row list \<Rightarrow> row list" where
  "transform_aux f df seen [] = []"
| "transform_aux f df seen (r # rs) =
     r\<lparr>vals := (\<lambda>m. f (group_series (country r) m df)
                    ! length (filter (\<lambda>r'. country r' = country r) seen))\<rparr>
     # transform_aux f df (seen @ [r]) rs"

definition transform ::
  "(real option list \<Rightarrow> real option list) \<Rightarrow> row list \<Rightarrow> error + row list" where
  "transform f df = (if df = [] then Inl ValueError else Inr (transform_aux f df [] df))"

text \<open>
  \<^verbatim>\<open>load_data\<close>, lines 8 to 21: the selection of line 9, the coercion, the sort and the
  fill; an exception of a line is the result.
\<close>

definition load_data :: "(string \<Rightarrow> real option) \<Rightarrow> raw_row list \<Rightarrow> error + row list" where
  "load_data parse raw =
     (case select_iso3 raw of
        Inl e \<Rightarrow> Inl e
      | Inr sel \<Rightarrow> transform fill (sort_values (map (coerce parse) sel)))"

text \<open>
  The frame before the fill (after line 14) and the cleaned table (line 21), as they are
  when no line raises.
\<close>

definition sorted_df :: "(string \<Rightarrow> real option) \<Rightarrow> raw_row list \<Rightarrow> row list" where
  "sorted_df parse raw = sort_values (map (coerce parse) (filter iso3 raw))"

definition cleaned :: "(string \<Rightarrow> real option) \<Rightarrow> raw_row list \<Rightarrow> row list" where
  "cleaned parse raw = transform_aux fill (sorted_df parse raw) [] (sorted_df parse raw)"

text \<open>
  Line 24, \<^verbatim>\<open>latest = int(df['year'].max())\<close>: the maximum of an empty column is NaN, and
  \<^verbatim>\<open>int\<close> of NaN raises \<^verbatim>\<open>ValueError\<close>.
\<close>

definition latest :: "row list \<Rightarrow> error + int" where
  "latest df = (case map year df of [] \<Rightarrow> Inl ValueError | y # ys \<Rightarrow> Inr (fold max ys y))"

section \<open>Float arithmetic where the script divides\<close>

text \<open>
  A float64 value: a finite number, an infinity, or NaN. The operations follow IEEE 754
  on these four kinds; the sign of a zero and rounding are not modelled.
\<close>

datatype flt = Fin real | PInf | NInf | NaN

definition of_val :: "real option \<Rightarrow> flt" where
  "of_val x = (case x of None \<Rightarrow> NaN | Some v \<Rightarrow> Fin v)"

fun flt_neg :: "flt \<Rightarrow> flt" where
  "flt_neg (Fin a) = Fin (- a)"
| "flt_neg PInf = NInf"
| "flt_neg NInf = PInf"
| "flt_neg NaN = NaN"

fun flt_div :: "flt \<Rightarrow> flt \<Rightarrow> flt" where
  "flt_div NaN y = NaN"
| "flt_div x NaN = NaN"
| "flt_div (Fin a) (Fin b) =
     (if b \<noteq> 0 then Fin (a / b) else if 0 < a then PInf else if a < 0 then NInf else NaN)"
| "flt_div (Fin a) y = Fin 0"
| "flt_div x (Fin b) = (if 0 \<le> b then x else flt_neg x)"
| "flt_div x y = NaN"

fun flt_mul :: "flt \<Rightarrow> flt \<Rightarrow> flt" where
  "flt_mul NaN y = NaN"
| "flt_mul x NaN = NaN"
| "flt_mul (Fin a) (Fin b) = Fin (a * b)"
| "flt_mul (Fin a) y = (if 0 < a then y else if a < 0 then flt_neg y else NaN)"
| "flt_mul x (Fin b) = (if 0 < b then x else if b < 0 then flt_neg x else NaN)"
| "flt_mul x y = (if x = y then PInf else NInf)"

fun flt_add :: "flt \<Rightarrow> flt \<Rightarrow> flt" where
  "flt_add NaN y = NaN"
| "flt_add x NaN = NaN"
| "flt_add (Fin a) (Fin b) = Fin (a + b)"
| "flt_add (Fin a) y = y"
| "flt_add x (Fin b) = x"
| "flt_add x y = (if x = y then x else NaN)"

text \<open>\<^verbatim>\<open>Series.max()\<close> skips NaN; the maximum of no number is NaN.\<close>

fun flt_max :: "flt \<Rightarrow> flt \<Rightarrow> flt" where
  "flt_max NaN y = y"
| "flt_max x NaN = x"
| "flt_max PInf y = PInf"
| "flt_max x PInf = PInf"
| "flt_max NInf y = y"
| "flt_max x NInf = x"
| "flt_max (Fin a) (Fin b) = Fin (max a b)"

definition col_max :: "flt list \<Rightarrow> flt" where
  "col_max xs = foldr flt_max xs NaN"

text \<open>\<^verbatim>\<open>dropna(subset=...)\<close> keeps the rows that have every column of the subset.\<close>

definition dropna :: "measure list \<Rightarrow> row list \<Rightarrow> row list" where
  "dropna cols d = filter (\<lambda>r. list_all (\<lambda>m. vals r m \<noteq> None) cols) d"

section \<open>Bar-chart race (lines 40 to 45)\<close>

text \<open>
  \<^verbatim>\<open>df.groupby(['year','country'], as_index=False)['co2'].sum()\<close>: one row for each pair
  of year and country of the frame, the pairs in ascending order, with the sum of the
  pair's \<^verbatim>\<open>co2\<close> entries; the sum skips NaN and is 0 when nothing is left.
  A row of \<open>annual\<close> is (year, country, co2).
\<close>

type_synonym annual_row = "int \<times> string \<times> real"

definition a_year :: "annual_row \<Rightarrow> int" where
  "a_year e = fst e"

definition a_country :: "annual_row \<Rightarrow> string" where
  "a_country e = fst (snd e)"

definition a_co2 :: "annual_row \<Rightarrow> real" where
  "a_co2 e = snd (snd e)"

definition co2_sum :: "row list \<Rightarrow> real" where
  "co2_sum d = sum_list (map (\<lambda>r. case vals r Co2 of None \<Rightarrow> 0 | Some v \<Rightarrow> v) d)"

definition annual :: "row list \<Rightarrow> annual_row list" where
  "annual df =
     map (\<lambda>(y, c). (y, c, co2_sum (filter (\<lambda>r. year r = y \<and> country r = c) df)))
       (sort (remdups (map (\<lambda>r. (year r, country r)) df)))"

text \<open>
  \<^verbatim>\<open>d.nlargest(n, 'co2')\<close> (\<^verbatim>\<open>keep='first'\<close>): the first \<open>n\<close> rows in descending order
  of \<^verbatim>\<open>co2\<close>, rows of equal \<^verbatim>\<open>co2\<close> in frame order. The \<^verbatim>\<open>co2\<close> column of \<open>annual\<close> has
  no NaN.
\<close>

definition nlargest :: "nat \<Rightarrow> annual_row list \<Rightarrow> annual_row list" where
  "nlargest n d = take n (sort_key (\<lambda>e. - a_co2 e) d)"

definition annual_year :: "int \<Rightarrow> row list \<Rightarrow> annual_row list" where
  "annual_year y df = filter (\<lambda>e. a_year e = y) (annual df)"

text \<open>
  \<^verbatim>\<open>annual.groupby('year', group_keys=False).apply(lambda d: d.nlargest(10,'co2'))\<close>: the
  results of the groups, one after the other in ascending order of the year.
\<close>

definition top10_each :: "row list \<Rightarrow> annual_row list" where
  "top10_each df =
     concat (map (\<lambda>y. nlargest 10 (annual_year y df)) (sort (remdups (map a_year (annual df)))))"

text \<open>The frame of the animation for year \<open>y\<close>, and the upper end of \<^verbatim>\<open>range_x\<close>.\<close>

definition bar_frame :: "int \<Rightarrow> row list \<Rightarrow> annual_row list" where
  "bar_frame y df = filter (\<lambda>e. a_year e = y) (top10_each df)"

definition range_x_upper :: "row list \<Rightarrow> flt" where
  "range_x_upper df = flt_mul (col_max (map (\<lambda>e. Fin (a_co2 e)) (top10_each df))) (Fin (105 / 100))"

section \<open>Bubble map (lines 55 and 56)\<close>

definition df_map :: "row list \<Rightarrow> row list" where
  "df_map df = dropna [Co2_per_capita, Co2] df"

definition co2_max :: "row list \<Rightarrow> flt" where
  "co2_max d = col_max (map (\<lambda>r. of_val (vals r Co2)) d)"

definition bubble_size :: "row list \<Rightarrow> flt list" where
  "bubble_size d =
     map (\<lambda>r. flt_add (flt_mul (flt_div (of_val (vals r Co2)) (co2_max d)) (Fin 60)) (Fin 5)) d"

section \<open>Country radar (lines 71 to 112)\<close>

text \<open>
  Lines 71 to 74: the rows of the latest year that have the four columns, each with the
  added column \<^verbatim>\<open>gdp_per_capita = gdp / population\<close>. The division is float64 division:
  no exception, and a zero population gives an infinity or NaN.
\<close>

type_synonym radar_row = "row \<times> flt"

definition gdp_per_capita :: "row \<Rightarrow> flt" where
  "gdp_per_capita r = flt_div (of_val (vals r Gdp)) (of_val (vals r Population))"

definition latest_rows :: "int \<Rightarrow> row list \<Rightarrow> row list" where
  "latest_rows y df = dropna [Co2, Co2_per_capita, Gdp, Population] (filter (\<lambda>r. year r = y) df)"

definition df_radar :: "int \<Rightarrow> row list \<Rightarrow> radar_row list" where
  "df_radar y df = map (\<lambda>r. (r, gdp_per_capita r)) (latest_rows y df)"

datatype metric = M_population | M_gdp_per_capita | M_co2 | M_co2_per_capita

definition metrics :: "metric list" where
  "metrics = [M_population, M_gdp_per_capita, M_co2, M_co2_per_capita]"

definition metric_val :: "metric \<Rightarrow> radar_row \<Rightarrow> flt" where
  "metric_val m r =
     (case m of
        M_population \<Rightarrow> of_val (vals (fst r) Population)
      | M_gdp_per_capita \<Rightarrow> snd r
      | M_co2 \<Rightarrow> of_val (vals (fst r) Co2)
      | M_co2_per_capita \<Rightarrow> of_val (vals (fst r) Co2_per_capita))"

text \<open>\<^verbatim>\<open>unique()\<close> keeps the first occurrence of each value, in frame order.\<close>

definition unique :: "'a list \<Rightarrow> 'a list" where
  "unique xs = rev (remdups (rev xs))"

definition options :: "radar_row list \<Rightarrow> string list" where
  "options t = unique (map (\<lambda>r. country (fst r)) t)"

text \<open>Line 85, \<^verbatim>\<open>df_radar[metrics].max()\<close>: the maximum of each metric over the whole frame.\<close>

definition norm :: "radar_row list \<Rightarrow> metric \<Rightarrow> flt" where
  "norm t m = col_max (map (metric_val m) t)"

text \<open>
  \<^verbatim>\<open>set_index('country').loc[choices, metrics]\<close>: for each chosen label in turn the rows
  of that country; a label that is no country of the frame raises \<^verbatim>\<open>KeyError\<close>.
\<close>

definition loc :: "string list \<Rightarrow> radar_row list \<Rightarrow> error + radar_row list" where
  "loc choices t =
     (if list_all (\<lambda>c. c \<in> set (options t)) choices
      then Inr (concat (map (\<lambda>c. filter (\<lambda>r. country (fst r) = c) t) choices))
      else Inl KeyError)"

type_synonym norm_row = "string \<times> (metric \<Rightarrow> flt)"

definition df_norm :: "string list \<Rightarrow> radar_row list \<Rightarrow> error + norm_row list" where
  "df_norm choices t =
     (case loc choices t of
        Inl e \<Rightarrow> Inl e
      | Inr sel \<Rightarrow>
          Inr (map (\<lambda>r. (country (fst r), \<lambda>m. flt_div (metric_val m r) (norm t m))) sel))"

text \<open>Line 89, \<^verbatim>\<open>melt\<close>: one row for each metric, in the order of the columns, and each row.\<close>

definition radar_df :: "norm_row list \<Rightarrow> (string \<times> metric \<times> flt) list" where
  "radar_df n = concat (map (\<lambda>m. map (\<lambda>r. (fst r, m, snd r m)) n) metrics)"

text \<open>What a panel shows: a chart with the data it is drawn from, or a message.\<close>

datatype chart =
  Bar "annual_row list" flt
  | Scatter_geo "row list" "flt list"
  | Line_polar "(string \<times> metric \<times> flt) list"
  | Sunburst "(string \<times> string \<times> real option) list"
  | Info string

text \<open>Lines 82 to 112: \<^verbatim>\<open>if choices:\<close> is true for a list that is not empty.\<close>

definition radar_view :: "string list \<Rightarrow> radar_row list \<Rightarrow> error + chart" where
  "radar_view choices t =
     (if choices \<noteq> []
      then (case df_norm choices t of
              Inl e \<Rightarrow> Inl e
            | Inr n \<Rightarrow> Inr (Line_polar (radar_df n)))
      else Inr (Info ''Select at least one country to display the radar chart.''))"




definition is_chart :: "error + chart \<Rightarrow> bool" where
  "is_chart out = (case out of Inr (Line_polar d) \<Rightarrow> True | _ \<Rightarrow> False)"

definition is_message :: "error + chart \<Rightarrow> bool" where
  "is_message out = (case out of Inr (Info s) \<Rightarrow> True | _ \<Rightarrow> False)"

section \<open>Source sunburst (lines 117 to 130)\<close>

text \<open>
  \<^verbatim>\<open>df5.nlargest(5,'co2')\<close> on rows: descending \<^verbatim>\<open>co2\<close>, rows of equal \<^verbatim>\<open>co2\<close> in frame
  order, rows without \<^verbatim>\<open>co2\<close> last.
\<close>

definition nlargest_co2 :: "nat \<Rightarrow> row list \<Rightarrow> row list" where
  "nlargest_co2 n d =
     take n (sort_key (\<lambda>r. case vals r Co2 of None \<Rightarrow> 0 | Some v \<Rightarrow> - v)
               (filter (\<lambda>r. vals r Co2 \<noteq> None) d)
             @ filter (\<lambda>r. vals r Co2 = None) d)"

definition column_name :: "measure \<Rightarrow> string" where
  "column_name m =
     (case m of
        Co2 \<Rightarrow> ''co2'' | Co2_per_capita \<Rightarrow> ''co2_per_capita'' | Gdp \<Rightarrow> ''gdp''
      | Population \<Rightarrow> ''population'' | Coal_co2 \<Rightarrow> ''coal_co2'' | Oil_co2 \<Rightarrow> ''oil_co2''
      | Gas_co2 \<Rightarrow> ''gas_co2'' | Flaring_co2 \<Rightarrow> ''flaring_co2'' | Cement_co2 \<Rightarrow> ''cement_co2'')"

definition value_vars :: "measure list" where
  "value_vars = [Coal_co2, Oil_co2, Gas_co2, Flaring_co2, Cement_co2]"

definition melt :: "row list \<Rightarrow> (string \<times> string \<times> real option) list" where
  "melt d = concat (map (\<lambda>m. map (\<lambda>r. (country r, column_name m, vals r m)) d) value_vars)"

text \<open>
  \<^verbatim>\<open>str.replace\<close> with a pattern that is not empty, and \<^verbatim>\<open>str.title\<close> on the letters
  a to z and A to Z.
\<close>

fun str_replace :: "string \<Rightarrow> string \<Rightarrow> string \<Rightarrow> string" where
  "str_replace old new [] = []"
| "str_replace old new (c # cs) =
     (if old \<noteq> [] \<and> take (length old) (c # cs) = old
      then new @ str_replace old new (drop (length old - 1) cs)
      else c # str_replace old new cs)"

definition is_lower :: "char \<Rightarrow> bool" where
  "is_lower c = (97 \<le> (of_char c :: nat) \<and> (of_char c :: nat) \<le> 122)"

definition is_upper :: "char \<Rightarrow> bool" where
  "is_upper c = (65 \<le> (of_char c :: nat) \<and> (of_char c :: nat) \<le> 90)"

definition to_upper :: "char \<Rightarrow> char" where
  "to_upper c = (if is_lower c then char_of ((of_char c :: nat) - 32) else c)"

definition to_lower :: "char \<Rightarrow> char" where
  "to_lower c = (if is_upper c then char_of ((of_char c :: nat) + 32) else c)"

fun title_aux :: "bool \<Rightarrow> string \<Rightarrow> string" where
  "title_aux prev [] = []"
| "title_aux prev (c # cs) =
     (if is_lower c \<or> is_upper c
      then (if prev then to_lower c else to_upper c) # title_aux True cs
      else c # title_aux False cs)"

definition title :: "string \<Rightarrow> string" where
  "title s = title_aux False s"

definition source_label :: "string \<Rightarrow> string" where
  "source_label s = str_replace ''Flaring'' ''Flaring'' (title (str_replace ''_co2'' [] s))"

definition top5 :: "int \<Rightarrow> row list \<Rightarrow> string list" where
  "top5 y df = map country (nlargest_co2 5 (filter (\<lambda>r. year r = y) df))"

definition sunburst_rows :: "int \<Rightarrow> row list \<Rightarrow> row list" where
  "sunburst_rows y df = filter (\<lambda>r. country r \<in> set (top5 y df)) (filter (\<lambda>r. year r = y) df)"

section \<open>A render pass (lines 23 to 137) on a heap of frames\<close>

text \<open>
  The script assigns columns to three frames: \<^verbatim>\<open>df_map['bubble_size']\<close>,
  \<^verbatim>\<open>df_radar['gdp_per_capita']\<close> and \<^verbatim>\<open>melt['source']\<close>. To see what such an assignment
  reaches, these frames and the cleaned table are objects in a heap, and an address is a
  position in it. \<^verbatim>\<open>dropna\<close>, selection by a boolean mask followed by \<^verbatim>\<open>dropna().copy()\<close>,
  and \<^verbatim>\<open>melt\<close> each return a new frame: they allocate. An assignment to a column writes
  to the frame at the address it is given. Frames that the script only reads
  (\<^verbatim>\<open>annual\<close>, \<^verbatim>\<open>top10_each\<close>, \<^verbatim>\<open>df5\<close>, \<^verbatim>\<open>df_norm\<close>, \<^verbatim>\<open>radar_df\<close>) are values.

  A \<open>Table\<close> holds rows of the file's columns and the columns added to it, by name; a
  \<open>Melted\<close> frame holds rows (country, source, emissions).
\<close>

datatype frame =
  Table "row list" "(string \<times> flt list) list"
  | Melted "(string \<times> string \<times> real option) list"

record state =
  heap :: "frame list"
  charts :: "chart list"
  raised :: "error option"

definition rows_at :: "nat \<Rightarrow> state \<Rightarrow> row list" where
  "rows_at a st =
     (if a < length (heap st)
      then (case heap st ! a of Table rs ex \<Rightarrow> rs | Melted ms \<Rightarrow> [])
      else [])"

definition column_at :: "nat \<Rightarrow> string \<Rightarrow> state \<Rightarrow> flt list" where
  "column_at a name st =
     (if a < length (heap st)
      then (case heap st ! a of
              Table rs ex \<Rightarrow> (case map_of ex name of None \<Rightarrow> [] | Some col \<Rightarrow> col)
            | Melted ms \<Rightarrow> [])
      else [])"

definition melted_at :: "nat \<Rightarrow> state \<Rightarrow> (string \<times> string \<times> real option) list" where
  "melted_at a st =
     (if a < length (heap st)
      then (case heap st ! a of Table rs ex \<Rightarrow> [] | Melted ms \<Rightarrow> ms)
      else [])"

definition alloc :: "frame \<Rightarrow> state \<Rightarrow> nat \<times> state" where
  "alloc f st = (length (heap st), st\<lparr>heap := heap st @ [f]\<rparr>)"

definition set_column :: "nat \<Rightarrow> string \<Rightarrow> flt list \<Rightarrow> state \<Rightarrow> state" where
  "set_column a name col st =
     (if a < length (heap st)
      then (case heap st ! a of
              Table rs ex \<Rightarrow>
                st\<lparr>heap := (heap st)[a := Table rs ((name, col) # filter (\<lambda>kv. fst kv \<noteq> name) ex)]\<rparr>
            | Melted ms \<Rightarrow> st)
      else st)"

definition set_source :: "nat \<Rightarrow> (string \<Rightarrow> string) \<Rightarrow> state \<Rightarrow> state" where
  "set_source a f st =
     (if a < length (heap st)
      then (case heap st ! a of
              Table rs ex \<Rightarrow> st
            | Melted ms \<Rightarrow>
                st\<lparr>heap := (heap st)[a := Melted (map (\<lambda>(c, src, v). (c, f src, v)) ms)]\<rparr>)
      else st)"

definition plot :: "chart \<Rightarrow> state \<Rightarrow> state" where
  "plot c st = st\<lparr>charts := charts st @ [c]\<rparr>"

text \<open>The panels; \<open>a\<close> is the address of \<^verbatim>\<open>df\<close> and \<open>y\<close> is \<^verbatim>\<open>latest\<close>.\<close>

definition bar_panel :: "nat \<Rightarrow> state \<Rightarrow> state" where
  "bar_panel a st = plot (Bar (top10_each (rows_at a st)) (range_x_upper (rows_at a st))) st"

definition bubble_panel :: "nat \<Rightarrow> state \<Rightarrow> state" where
  "bubble_panel a st =
     (let (b, st1) = alloc (Table (df_map (rows_at a st)) []) st;
          st2 = set_column b ''bubble_size'' (bubble_size (rows_at b st1)) st1
      in plot (Scatter_geo (rows_at b st2) (column_at b ''bubble_size'' st2)) st2)"

definition radar_panel :: "int \<Rightarrow> string list \<Rightarrow> nat \<Rightarrow> state \<Rightarrow> state" where
  "radar_panel y choices a st =
     (let (b, st1) = alloc (Table (latest_rows y (rows_at a st)) []) st;
          st2 = set_column b ''gdp_per_capita'' (map gdp_per_capita (rows_at b st1)) st1
      in case radar_view choices (zip (rows_at b st2) (column_at b ''gdp_per_capita'' st2)) of
           Inl e \<Rightarrow> st2\<lparr>raised := Some e\<rparr>
         | Inr c \<Rightarrow> plot c st2)"

definition sunburst_panel :: "int \<Rightarrow> nat \<Rightarrow> state \<Rightarrow> state" where
  "sunburst_panel y a st =
     (let (b, st1) = alloc (Melted (melt (sunburst_rows y (rows_at a st)))) st;
          st2 = set_source b source_label st1
      in plot (Sunburst (melted_at b st2)) st2)"

datatype panel = Bar_Chart_Race | Bubble_Map | Country_Radar | Source_Sunburst

text \<open>
  The pass: \<open>viz\<close> is the selection of the sidebar, \<open>choices\<close> the selection of countries.
  An exception ends the pass.
\<close>

definition render :: "panel list \<Rightarrow> string list \<Rightarrow> nat \<Rightarrow> state \<Rightarrow> state" where
  "render viz choices a st =
     (case latest (rows_at a st) of
        Inl e \<Rightarrow> st\<lparr>raised := Some e\<rparr>
      | Inr y \<Rightarrow>
          (let st1 = (if Bar_Chart_Race \<in> set viz then bar_panel a st else st);
               st2 = (if Bubble_Map \<in> set viz then bubble_panel a st1 else st1);
               st3 = (if Country_Radar \<in> set viz then radar_panel y choices a st2 else st2)
           in if raised st3 = None \<and> Source_Sunburst \<in> set viz
              then sunburst_panel y a st3 else st3))"

text \<open>The state after line 23: the cleaned table at address 0, nothing shown.\<close>

definition init_state :: "row list \<Rightarrow> state" where
  "init_state df = \<lparr>heap = [Table df []], charts = [], raised = None\<rparr>"

section \<open>Example inputs\<close>

text \<open>
  A row of the file with the code \<open>code\<close>, the four columns the examples use, and the five
  per-source columns empty.
\<close>

definition raw_obs :: "string option \<Rightarrow> string \<Rightarrow> int \<Rightarrow> cell \<Rightarrow> cell \<Rightarrow> cell \<Rightarrow> cell \<Rightarrow> raw_row" where
  "raw_obs code c y v_co2 v_cpc v_gdp v_pop =
     \<lparr>raw_iso_code = code, raw_country = c, raw_year = y,
      raw_cells = (\<lambda>m. case m of Co2 \<Rightarrow> v_co2 | Co2_per_capita \<Rightarrow> v_cpc | Gdp \<Rightarrow> v_gdp
                         | Population \<Rightarrow> v_pop | _ \<Rightarrow> NA)\<rparr>"

text \<open>The example of the specification: a gap midway between two known years.\<close>

definition gap_even_raw :: "raw_row list" where
  "gap_even_raw =
     [raw_obs (Some ''AAA'') ''A'' 2000 (Num 10) NA NA NA,
      raw_obs (Some ''AAA'') ''A'' 2002 NA NA NA NA,
      raw_obs (Some ''AAA'') ''A'' 2004 (Num 30) NA NA NA]"

text \<open>The same series with the gap at 2003, three quarters of the way.\<close>

definition gap_uneven_raw :: "raw_row list" where
  "gap_uneven_raw =
     [raw_obs (Some ''AAA'') ''A'' 2000 (Num 10) NA NA NA,
      raw_obs (Some ''AAA'') ''A'' 2003 NA NA NA NA,
      raw_obs (Some ''AAA'') ''A'' 2004 (Num 30) NA NA NA]"

text \<open>
  A file out of order, with a region row, a row without code, an unparseable cell, and a
  country whose series has gaps at both ends.
\<close>

definition edges_raw :: "raw_row list" where
  "edges_raw =
     [raw_obs (Some ''BBB'') ''B'' 2002 NA NA NA NA,
      raw_obs (Some ''OWID_WRL'') ''World'' 2000 (Num 99) NA NA NA,
      raw_obs (Some ''BBB'') ''B'' 2000 (Str ''n/a'') NA NA NA,
      raw_obs None ''Asia'' 2000 (Num 50) NA NA NA,
      raw_obs (Some ''BBB'') ''B'' 2001 (Num 7) NA NA NA,
      raw_obs (Some ''BBB'') ''B'' 1999 NA NA NA NA]"

text \<open>Twelve countries in one year, with \<^verbatim>\<open>co2\<close> from 1 to 12.\<close>

definition race_raw :: "raw_row list" where
  "race_raw =
     map (\<lambda>(c, v). raw_obs (Some ''AAA'') c 2000 (Num v) NA NA NA)
       [(''A'', 12), (''B'', 11), (''C'', 10), (''D'', 9), (''E'', 8), (''F'', 7),
        (''G'', 6), (''H'', 5), (''I'', 4), (''J'', 3), (''K'', 2), (''L'', 1)]"

text \<open>A file whose only country emits nothing.\<close>

definition zero_raw :: "raw_row list" where
  "zero_raw = [raw_obs (Some ''ZZZ'') ''Z'' 2000 (Num 0) (Num 0) NA NA]"

definition bubble_raw :: "raw_row list" where
  "bubble_raw =
     [raw_obs (Some ''XXX'') ''X'' 2020 (Num 50) (Num 5) NA NA,
      raw_obs (Some ''YYY'') ''Y'' 2020 (Num 100) (Num 2) NA NA]"

definition radar_raw :: "raw_row list" where
  "radar_raw =
     [raw_obs (Some ''XXX'') ''X'' 2020 (Num 5) (Num 1) (Num 100) (Num 10),
      raw_obs (Some ''YYY'') ''Y'' 2020 (Num 10) (Num 2) (Num 100) (Num 20)]"

text \<open>A country with a population of 0 in the latest year.\<close>

definition zero_pop_raw :: "raw_row list" where
  "zero_pop_raw = [raw_obs (Some ''XXX'') ''X'' 2020 (Num 5) (Num 1) (Num 100) (Num 0)]"


text \<open>Files without a row of a three-character code: region rows only, and no code at all.\<close>

definition regions_raw :: "raw_row list" where
  "regions_raw =
     [raw_obs (Some ''OWID_WRL'') ''World'' 2000 (Num 99) NA NA NA,
      raw_obs None ''Asia'' 2000 (Num 50) NA NA NA]"

definition no_code_raw :: "raw_row list" where
  "no_code_raw = [raw_obs None ''Asia'' 2000 (Num 50) NA NA NA]"

section \<open>Properties of the cleaner\<close>

subsection \<open>Lengths and groups\<close>

lemma length_interp_aux [simp]: "length (interp_aux prev xs) = length xs"
  by (induction prev xs rule: interp_aux.induct) auto

lemma length_ffill_from [simp]: "length (ffill_from l xs) = length xs"
  by (induction l xs rule: ffill_from.induct) auto

lemma length_bfill [simp]: "length (bfill xs) = length xs"
  by (induction xs rule: bfill.induct) (auto split: list.splits)

lemma length_fill [simp]: "length (fill s) = length s"
  by (simp add: fill_def ffill_def interpolate_def)

lemma transform_aux_meta:
  "map (\<lambda>r. (iso_code r, country r, year r)) (transform_aux f df seen rs)
   = map (\<lambda>r. (iso_code r, country r, year r)) rs"
  by (induction rs arbitrary: seen) auto

lemma upt_add_Suc: "[n ..< n + Suc k] = n # [Suc n ..< Suc n + k]"
  using upt_conv_Cons [of n "n + Suc k"] by simp

lemma transform_aux_group:
  "map (\<lambda>r. vals r m) (filter (\<lambda>r. country r = c) (transform_aux f df seen rs))
   = map (\<lambda>k. f (group_series c m df) ! k)
       [length (filter (\<lambda>r. country r = c) seen) ..<
        length (filter (\<lambda>r. country r = c) seen) + length (filter (\<lambda>r. country r = c) rs)]"
proof (induction rs arbitrary: seen)
  case Nil
  then show ?case by simp
next
  case (Cons r rs)
  show ?case
  proof (cases "country r = c")
    case True
    let ?n = "length (filter (\<lambda>r. country r = c) seen)"
    let ?k = "length (filter (\<lambda>r. country r = c) rs)"
    have "[?n ..< ?n + Suc ?k] = ?n # [Suc ?n ..< Suc ?n + ?k]"
      by (rule upt_add_Suc)
    with True show ?thesis
      using Cons.IH [of "seen @ [r]"] by (simp del: upt_Suc)
  next
    case False
    then show ?thesis
      using Cons.IH [of "seen @ [r]"] by simp
  qed
qed

lemma transform_group:
  assumes "\<And>s. length (f s) = length s"
  shows "group_series c m (transform_aux f df [] df) = f (group_series c m df)"
proof -
  have "group_series c m (transform_aux f df [] df)
        = map (\<lambda>k. f (group_series c m df) ! k) [0 ..< length (group_series c m df)]"
    unfolding group_series_def [of c m "transform_aux f df [] df"]
    using transform_aux_group [of m c f df "[]" df]
    by (simp add: group_series_def)
  also have "\<dots> = f (group_series c m df)"
    using assms [of "group_series c m df"] by (metis map_nth)
  finally show ?thesis .
qed

subsection \<open>Known entries stay\<close>

lemma interp_aux_Some:
  "i < length xs \<Longrightarrow> xs ! i = Some v \<Longrightarrow> interp_aux prev xs ! i = Some v"
proof (induction prev xs arbitrary: i rule: interp_aux.induct)
  case (1 prev)
  then show ?case by simp
next
  case (2 prev w xs)
  then show ?case by (cases i) auto
next
  case (3 prev xs)
  then show ?case by (cases i) auto
qed

lemma ffill_from_Some:
  "i < length xs \<Longrightarrow> xs ! i = Some v \<Longrightarrow> ffill_from l xs ! i = Some v"
proof (induction l xs arbitrary: i rule: ffill_from.induct)
  case (1 l)
  then show ?case by simp
next
  case (2 l w xs)
  then show ?case by (cases i) auto
next
  case (3 l xs)
  then show ?case by (cases i) auto
qed

lemma bfill_Some:
  "i < length xs \<Longrightarrow> xs ! i = Some v \<Longrightarrow> bfill xs ! i = Some v"
proof (induction xs arbitrary: i rule: bfill.induct)
  case 1
  then show ?case by simp
next
  case (2 w xs)
  then show ?case by (cases i) auto
next
  case (3 xs)
  show ?case
  proof (cases i)
    case 0
    with 3 show ?thesis by simp
  next
    case (Suc j)
    with 3 have j: "j < length xs" "xs ! j = Some v" by auto
    then have "bfill xs ! j = Some v" by (rule "3.IH")
    moreover from j have "bfill xs \<noteq> []" by (metis length_bfill list.size(3) not_less0)
    ultimately show ?thesis using Suc by (auto split: list.splits)
  qed
qed

subsection \<open>No gap is left\<close>

lemma ffill_from_Some_no_None: "None \<notin> set (ffill_from (Some v) xs)"
  by (induction "Some v" xs arbitrary: v rule: ffill_from.induct) auto

lemma bfill_id: "None \<notin> set xs \<Longrightarrow> bfill xs = xs"
  by (induction xs rule: bfill.induct) auto

lemma bfill_ffill_no_None:
  "Some v \<in> set xs \<Longrightarrow> None \<notin> set (bfill (ffill_from None xs))"
proof (induction xs)
  case Nil
  then show ?case by simp
next
  case (Cons x xs)
  show ?case
  proof (cases x)
    case None
    with Cons.prems have in_xs: "Some v \<in> set xs" by simp
    then have "xs \<noteq> []" by auto
    then have "bfill (ffill_from None xs) \<noteq> []"
      by (metis length_bfill length_ffill_from length_0_conv)
    with Cons.IH [OF in_xs] None show ?thesis
      by (auto split: list.splits)
  next
    case (Some w)
    then show ?thesis
      by (simp add: bfill_id ffill_from_Some_no_None)
  qed
qed

lemma interp_aux_keeps: "Some v \<in> set xs \<Longrightarrow> Some v \<in> set (interp_aux prev xs)"
  by (metis in_set_conv_nth interp_aux_Some length_interp_aux)

lemma fill_no_None: "Some v \<in> set s \<Longrightarrow> None \<notin> set (fill s)"
  unfolding fill_def ffill_def interpolate_def
  by (rule bfill_ffill_no_None) (rule interp_aux_keeps)

subsection \<open>Gaps at the ends and single gaps\<close>

lemma interp_aux_drop:
  "drop (length pre) (interp_aux prev (pre @ Some v # post))
   = Some v # interp_aux (Some (1, v)) post"
proof (induction pre arbitrary: prev)
  case Nil
  then show ?case by simp
next
  case (Cons x pre)
  then show ?case by (cases x) simp_all
qed

lemma ffill_from_drop:
  "None \<notin> set ys \<Longrightarrow> drop (length pre) (ffill_from l (pre @ ys)) = ys"
proof (induction pre arbitrary: l)
  case Nil
  then show ?case by (induction l ys rule: ffill_from.induct) auto
next
  case (Cons x pre)
  then show ?case by (cases x) simp_all
qed

lemma bfill_drop:
  "None \<notin> set ys \<Longrightarrow> drop (length pre) (bfill (pre @ ys)) = ys"
proof (induction pre)
  case Nil
  then show ?case by (simp add: bfill_id)
next
  case (Cons x pre)
  then show ?case by (cases x) (auto split: list.splits)
qed

lemma interp_aux_trailing: "interp_aux (Some (d, v)) (replicate k None) = replicate k (Some v)"
proof (induction k arbitrary: d)
  case 0
  then show ?case by simp
next
  case (Suc k)
  have "next_valid (replicate k None) = None" by (induction k) auto
  with Suc show ?case by simp
qed

lemma fill_trailing:
  "drop (length pre) (fill (pre @ Some v # replicate k None)) = replicate (Suc k) (Some v)"
proof -
  have "drop (length pre) (interpolate (pre @ Some v # replicate k None))
        = replicate (Suc k) (Some v)"
    by (simp add: interpolate_def interp_aux_drop interp_aux_trailing)
  then obtain ys where ys: "interpolate (pre @ Some v # replicate k None)
        = ys @ replicate (Suc k) (Some v)" and len: "length ys = length pre"
    by (metis append_take_drop_id length_take min.absorb2 length_interp_aux interpolate_def
        length_append le_add1)
  have "drop (length ys) (ffill_from None (ys @ replicate (Suc k) (Some v)))
        = replicate (Suc k) (Some v)"
    by (rule ffill_from_drop) simp
  then obtain zs where zs: "ffill_from None (ys @ replicate (Suc k) (Some v))
        = zs @ replicate (Suc k) (Some v)" and len': "length zs = length ys"
    by (metis append_take_drop_id length_take min.absorb2 length_ffill_from
        length_append le_add1)
  have "drop (length zs) (bfill (zs @ replicate (Suc k) (Some v))) = replicate (Suc k) (Some v)"
    by (rule bfill_drop) simp
  with ys zs len len' show ?thesis
    by (simp add: fill_def ffill_def)
qed

lemma interp_aux_leading:
  "interp_aux None (replicate k None @ xs) = replicate k None @ interp_aux None xs"
  by (induction k) auto

lemma ffill_from_leading:
  "ffill_from None (replicate k None @ xs) = replicate k None @ ffill_from None xs"
  by (induction k) auto

lemma bfill_leading:
  "bfill (replicate k None @ Some v # ys) = replicate k (Some v) @ Some v # bfill ys"
  by (induction k) (auto simp: replicate_app_Cons_same)

lemma fill_leading:
  "take (Suc k) (fill (replicate k None @ Some v # rest)) = replicate (Suc k) (Some v)"
  by (simp add: fill_def ffill_def interpolate_def interp_aux_leading ffill_from_leading
      bfill_leading replicate_append_same)

lemma interp_aux_single_gap:
  "interp_aux prev (pre @ Some v1 # None # Some v2 # post) ! Suc (length pre)
   = Some ((v1 + v2) / 2)"
proof -
  have "drop (length pre) (interp_aux prev (pre @ Some v1 # None # Some v2 # post)) ! 1
        = Some ((v1 + v2) / 2)"
    by (simp add: interp_aux_drop field_simps)
  then show ?thesis by simp
qed

lemma cleaned_series:
  "group_series c m (cleaned parse raw) = fill (group_series c m (sorted_df parse raw))"
  unfolding cleaned_def by (rule transform_group) (rule length_fill)

lemma cleaned_meta:
  "map (\<lambda>r. (iso_code r, country r, year r)) (cleaned parse raw)
   = map (\<lambda>r. (iso_code r, country r, year r)) (sorted_df parse raw)"
  unfolding cleaned_def by (rule transform_aux_meta)

lemma cleaned_years: "group_years c (cleaned parse raw) = group_years c (sorted_df parse raw)"
proof -
  have "map (\<lambda>t. snd (snd t))
          (filter (\<lambda>t. fst (snd t) = c)
            (map (\<lambda>r. (iso_code r, country r, year r)) (cleaned parse raw)))
        = map (\<lambda>t. snd (snd t))
          (filter (\<lambda>t. fst (snd t) = c)
            (map (\<lambda>r. (iso_code r, country r, year r)) (sorted_df parse raw)))"
    by (simp only: cleaned_meta)
  then show ?thesis
    by (simp add: group_years_def filter_map comp_def)
qed

lemma load_data_returns:
  assumes "filter iso3 raw \<noteq> []"
  shows "load_data parse raw = Inr (cleaned parse raw)"
proof -
  from assms obtain r where "r \<in> set raw" and "iso3 r"
    by (auto simp: filter_empty_conv)
  then have "\<not> list_all (\<lambda>r. raw_iso_code r = None) raw"
    by (auto simp: list_all_iff iso3_def split: option.splits)
  then have "select_iso3 raw = Inr (filter iso3 raw)"
    by (simp add: select_iso3_def)
  moreover have "length (sorted_df parse raw) = length (filter iso3 raw)"
    by (simp add: sorted_df_def sort_values_def)
  with assms have "sorted_df parse raw \<noteq> []"
    by (metis length_0_conv)
  ultimately show ?thesis
    by (simp add: load_data_def transform_def cleaned_def sorted_df_def)
qed

lemma load_data_raises:
  assumes "filter iso3 raw = []"
  shows "load_data parse raw
         = Inl (if raw \<noteq> [] \<and> list_all (\<lambda>r. raw_iso_code r = None) raw
                then AttributeError else ValueError)"
  using assms by (simp add: load_data_def select_iso3_def transform_def sort_values_def)

lemma series_selected:
  assumes "group_series c m (sorted_df parse raw) \<noteq> []"
  shows "filter iso3 raw \<noteq> []"
proof
  assume "filter iso3 raw = []"
  then have "sorted_df parse raw = []"
    by (simp add: sorted_df_def sort_values_def)
  with assms show False
    by (simp add: group_series_def)
qed

lemma sorted_df_sorted: "sorted (map (\<lambda>r. (country r, year r)) (sorted_df parse raw))"
  by (simp add: sorted_df_def sort_values_def)

section \<open>Claims about the cleaner\<close>

text \<open>
  C1. The claim: in a country series with known values \<open>v1\<close> at year \<open>y1\<close> and \<open>v2\<close> at
  year \<open>y2\<close> and one missing year \<open>y\<close> between them, the filled value is the linear
  interpolation over the year axis, \<open>v1 + (y - y1) / (y2 - y1) * (v2 - v1)\<close>.
  The cleaner interpolates over the position in the series, not over the year: in the
  series of country A with 10 at 2000, a gap at 2003 and 30 at 2004 it fills 20, where the
  formula of the claim gives 25.
\<close>

theorem single_gap_year_axis_counterexample:
  "load_data (\<lambda>_. None) gap_uneven_raw = Inr (cleaned (\<lambda>_. None) gap_uneven_raw)
   \<and> group_years ''A'' (cleaned (\<lambda>_. None) gap_uneven_raw) = [2000, 2003, 2004]
   \<and> group_series ''A'' Co2 (sorted_df (\<lambda>_. None) gap_uneven_raw) = [Some 10, None, Some 30]
   \<and> group_series ''A'' Co2 (cleaned (\<lambda>_. None) gap_uneven_raw) ! 1 = Some 20
   \<and> (20 :: real) \<noteq> 10 + real_of_int (2003 - 2000) / real_of_int (2004 - 2000) * (30 - 10)"
proof -
  have "filter iso3 gap_uneven_raw \<noteq> []"
    by (simp add: gap_uneven_raw_def raw_obs_def iso3_def)
  then have "load_data (\<lambda>_. None) gap_uneven_raw = Inr (cleaned (\<lambda>_. None) gap_uneven_raw)"
    by (rule load_data_returns)
  then show ?thesis
    by (simp add: cleaned_def fill_def ffill_def interpolate_def group_series_def
        group_years_def sorted_df_def gap_uneven_raw_def raw_obs_def iso3_def coerce_def
        sort_values_def to_numeric_def)
qed

text \<open>
  C1, as amended. In a country series of the sorted frame with known values \<open>v1\<close> and
  \<open>v2\<close> and exactly one missing entry between them, the cleaner returns a table, in
  which it has filled the midpoint
  \<open>(v1 + v2) / 2\<close>, the linear interpolation over the positions of the series. It is the
  value of the year-axis formula when the missing year lies midway between the two known
  years.
\<close>

theorem single_gap_midpoint:
  assumes "Suc (Suc i) < length (group_series c m (sorted_df parse raw))"
    and "group_series c m (sorted_df parse raw) ! i = Some v1"
    and "group_series c m (sorted_df parse raw) ! Suc i = None"
    and "group_series c m (sorted_df parse raw) ! Suc (Suc i) = Some v2"
  shows "load_data parse raw = Inr (cleaned parse raw)
     \<and> group_series c m (cleaned parse raw) ! Suc i = Some ((v1 + v2) / 2)
     \<and> (group_years c (cleaned parse raw) ! i < group_years c (cleaned parse raw) ! Suc i
        \<and> group_years c (cleaned parse raw) ! Suc i - group_years c (cleaned parse raw) ! i
          = group_years c (cleaned parse raw) ! Suc (Suc i)
            - group_years c (cleaned parse raw) ! Suc i
        \<longrightarrow> group_series c m (cleaned parse raw) ! Suc i
            = Some (v1 + real_of_int (group_years c (cleaned parse raw) ! Suc i
                                      - group_years c (cleaned parse raw) ! i)
                       / real_of_int (group_years c (cleaned parse raw) ! Suc (Suc i)
                                      - group_years c (cleaned parse raw) ! i)
                       * (v2 - v1)))"
proof -
  let ?s = "group_series c m (sorted_df parse raw)"
  have "?s = take i ?s @ ?s ! i # ?s ! Suc i # ?s ! Suc (Suc i) # drop (Suc (Suc (Suc i))) ?s"
    using assms(1) by (simp add: Cons_nth_drop_Suc)
  then have dec: "?s = take i ?s @ Some v1 # None # Some v2 # drop (Suc (Suc (Suc i))) ?s"
    using assms by simp
  have "interpolate ?s ! Suc (length (take i ?s)) = Some ((v1 + v2) / 2)"
    unfolding interpolate_def by (subst dec) (rule interp_aux_single_gap)
  moreover have "length (take i ?s) = i"
    using assms(1) by simp
  ultimately have "interpolate ?s ! Suc i = Some ((v1 + v2) / 2)"
    by simp
  then have "fill ?s ! Suc i = Some ((v1 + v2) / 2)"
    unfolding fill_def ffill_def
    using assms(1) by (simp add: bfill_Some ffill_from_Some interpolate_def)
  then have mid: "group_series c m (cleaned parse raw) ! Suc i = Some ((v1 + v2) / 2)"
    by (simp add: cleaned_series)
  have "(v1 + v2) / 2 = v1 + real_of_int (y - y1) / real_of_int (y2 - y1) * (v2 - v1)"
    if "y1 < y" and "y - y1 = y2 - y" for y1 y y2 :: int
  proof -
    from that have "real_of_int (y2 - y1) = 2 * real_of_int (y - y1)"
      and "real_of_int (y - y1) \<noteq> 0" by auto
    then have "real_of_int (y - y1) / real_of_int (y2 - y1) = 1 / 2"
      by simp
    then show ?thesis
      by (simp only:) (simp add: field_simps)
  qed
  moreover have "load_data parse raw = Inr (cleaned parse raw)"
    using assms(1) by (intro load_data_returns series_selected [of c m parse]) auto
  ultimately show ?thesis
    using mid by simp
qed

theorem single_gap_midpoint_witness:
  "load_data (\<lambda>_. None) gap_even_raw = Inr (cleaned (\<lambda>_. None) gap_even_raw)
   \<and> group_series ''A'' Co2 (sorted_df (\<lambda>_. None) gap_even_raw) = [Some 10, None, Some 30]
   \<and> group_years ''A'' (cleaned (\<lambda>_. None) gap_even_raw) = [2000, 2002, 2004]
   \<and> group_series ''A'' Co2 (cleaned (\<lambda>_. None) gap_even_raw) ! Suc 0 = Some 20
   \<and> group_series ''A'' Co2 (cleaned (\<lambda>_. None) gap_even_raw) ! Suc 0
     = Some (10 + real_of_int (2002 - 2000) / real_of_int (2004 - 2000) * (30 - 10))"
proof -
  have s: "group_series ''A'' Co2 (sorted_df (\<lambda>_. None) gap_even_raw) = [Some 10, None, Some 30]"
    by (simp add: group_series_def sorted_df_def gap_even_raw_def raw_obs_def iso3_def
        coerce_def sort_values_def to_numeric_def)
  have y: "group_years ''A'' (cleaned (\<lambda>_. None) gap_even_raw) = [2000, 2002, 2004]"
    by (simp only: cleaned_years)
      (simp add: group_years_def sorted_df_def gap_even_raw_def raw_obs_def
        iso3_def coerce_def sort_values_def)
  show ?thesis
    using single_gap_midpoint [of 0 "''A''" Co2 "\<lambda>_. None" gap_even_raw 10 30]
    by (simp add: s y)
qed

text \<open>
  C2. If the series of a country in a measure column has at least one known value before
  the fill, then the cleaner returns a table, in which the series of that country in that
  column has no missing value and as many entries as before.
\<close>

theorem no_gap_left:
  assumes "Some v \<in> set (group_series c m (sorted_df parse raw))"
  shows "load_data parse raw = Inr (cleaned parse raw)
         \<and> None \<notin> set (group_series c m (cleaned parse raw))
         \<and> length (group_series c m (cleaned parse raw))
           = length (group_series c m (sorted_df parse raw))"
proof -
  from assms have "group_series c m (sorted_df parse raw) \<noteq> []"
    by auto
  then have "load_data parse raw = Inr (cleaned parse raw)"
    by (intro load_data_returns series_selected)
  with assms show ?thesis
    by (simp add: cleaned_series fill_no_None)
qed

theorem no_gap_left_witness:
  "load_data (\<lambda>_. None) edges_raw = Inr (cleaned (\<lambda>_. None) edges_raw)
   \<and> group_series ''B'' Co2 (sorted_df (\<lambda>_. None) edges_raw) = [None, None, Some 7, None]
   \<and> None \<notin> set (group_series ''B'' Co2 (cleaned (\<lambda>_. None) edges_raw))
   \<and> length (group_series ''B'' Co2 (cleaned (\<lambda>_. None) edges_raw)) = 4"
proof -
  have s: "group_series ''B'' Co2 (sorted_df (\<lambda>_. None) edges_raw) = [None, None, Some 7, None]"
    by (simp add: group_series_def sorted_df_def edges_raw_def raw_obs_def iso3_def
        coerce_def sort_values_def to_numeric_def)
  show ?thesis
    using no_gap_left [of 7 "''B''" Co2 "\<lambda>_. None" edges_raw]
    by (simp add: s)
qed

text \<open>
  C3. When the file has a row whose code has exactly three characters, the cleaner
  returns a table that has, row by row, the code, country and year of the sorted frame;
  the sorted frame is a permutation of the coerced rows of the file whose code has
  exactly three characters, so each of them is kept once and no other row appears; and
  the table is in ascending order of (country, year). When the file has no such row, the
  cleaner raises and there is no cleaned table: \<^verbatim>\<open>AttributeError\<close> at line 9 when the file
  has rows and every code is missing, \<^verbatim>\<open>ValueError\<close> at line 19 otherwise.
\<close>

theorem load_data_rows:
  "(filter iso3 raw \<noteq> [] \<longrightarrow>
      load_data parse raw = Inr (cleaned parse raw)
      \<and> map (\<lambda>r. (iso_code r, country r, year r)) (cleaned parse raw)
        = map (\<lambda>r. (iso_code r, country r, year r)) (sorted_df parse raw)
      \<and> mset (sorted_df parse raw) = mset (map (coerce parse) (filter iso3 raw))
      \<and> sorted (map (\<lambda>r. (country r, year r)) (cleaned parse raw)))
   \<and> (filter iso3 raw = [] \<longrightarrow>
      load_data parse raw
      = Inl (if raw \<noteq> [] \<and> list_all (\<lambda>r. raw_iso_code r = None) raw
             then AttributeError else ValueError))"
proof -
  have "map (\<lambda>t. (fst (snd t), snd (snd t)))
          (map (\<lambda>r. (iso_code r, country r, year r)) (cleaned parse raw))
        = map (\<lambda>t. (fst (snd t), snd (snd t)))
          (map (\<lambda>r. (iso_code r, country r, year r)) (sorted_df parse raw))"
    by (simp only: cleaned_meta)
  then have "map (\<lambda>r. (country r, year r)) (cleaned parse raw)
             = map (\<lambda>r. (country r, year r)) (sorted_df parse raw)"
    by (simp add: comp_def)
  then have "sorted (map (\<lambda>r. (country r, year r)) (cleaned parse raw))"
    using sorted_df_sorted [of parse raw] by simp
  moreover have "mset (sorted_df parse raw) = mset (map (coerce parse) (filter iso3 raw))"
    by (simp add: sorted_df_def sort_values_def)
  ultimately show ?thesis
    using load_data_returns [of raw parse] load_data_raises [of raw parse]
    by (simp add: cleaned_meta)
qed

theorem load_data_rows_witness:
  "load_data (\<lambda>_. None) edges_raw = Inr (cleaned (\<lambda>_. None) edges_raw)
   \<and> map (\<lambda>r. (iso_code r, country r, year r)) (cleaned (\<lambda>_. None) edges_raw)
     = [(Some ''BBB'', ''B'', 1999), (Some ''BBB'', ''B'', 2000), (Some ''BBB'', ''B'', 2001),
        (Some ''BBB'', ''B'', 2002)]
   \<and> length (filter iso3 edges_raw) = 4
   \<and> load_data (\<lambda>_. None) regions_raw = Inl ValueError
   \<and> load_data (\<lambda>_. None) no_code_raw = Inl AttributeError"
  using load_data_rows [of edges_raw "\<lambda>_. None"] load_data_rows [of regions_raw "\<lambda>_. None"]
    load_data_rows [of no_code_raw "\<lambda>_. None"]
  by (simp add: sorted_df_def edges_raw_def regions_raw_def no_code_raw_def raw_obs_def iso3_def
      coerce_def sort_values_def)

text \<open>
  C4. For a series that starts with a gap the cleaner returns a table in which the
  series has the earliest known value on the whole gap, the first year included; for a
  series that ends with a gap, a table in which it has the latest known value on the
  whole gap, the last year included.
\<close>

theorem boundary_fill:
  "(group_series c m (sorted_df parse raw) = replicate k None @ Some v # rest
      \<longrightarrow> load_data parse raw = Inr (cleaned parse raw)
          \<and> take (Suc k) (group_series c m (cleaned parse raw)) = replicate (Suc k) (Some v))
   \<and> (group_series c m (sorted_df parse raw) = pre @ Some v # replicate k None
      \<longrightarrow> load_data parse raw = Inr (cleaned parse raw)
          \<and> drop (length pre) (group_series c m (cleaned parse raw)) = replicate (Suc k) (Some v))"
proof -
  have "load_data parse raw = Inr (cleaned parse raw)"
    if "group_series c m (sorted_df parse raw) = xs @ Some v # ys" for xs ys
    using that by (intro load_data_returns series_selected [of c m parse]) simp
  then show ?thesis
    by (simp add: cleaned_series fill_leading fill_trailing)
qed

theorem boundary_fill_witness:
  "load_data (\<lambda>_. None) edges_raw = Inr (cleaned (\<lambda>_. None) edges_raw)
   \<and> group_series ''B'' Co2 (sorted_df (\<lambda>_. None) edges_raw) = replicate 2 None @ Some 7 # [None]
   \<and> group_series ''B'' Co2 (sorted_df (\<lambda>_. None) edges_raw) = [None, None] @ Some 7 # replicate 1 None
   \<and> group_years ''B'' (cleaned (\<lambda>_. None) edges_raw) = [1999, 2000, 2001, 2002]
   \<and> take 3 (group_series ''B'' Co2 (cleaned (\<lambda>_. None) edges_raw)) = [Some 7, Some 7, Some 7]
   \<and> drop 2 (group_series ''B'' Co2 (cleaned (\<lambda>_. None) edges_raw)) = [Some 7, Some 7]"
proof -
  have s: "group_series ''B'' Co2 (sorted_df (\<lambda>_. None) edges_raw) = [None, None, Some 7, None]"
    by (simp add: group_series_def sorted_df_def edges_raw_def raw_obs_def iso3_def
        coerce_def sort_values_def to_numeric_def)
  have y: "group_years ''B'' (cleaned (\<lambda>_. None) edges_raw) = [1999, 2000, 2001, 2002]"
    by (simp only: cleaned_years)
      (simp add: group_years_def sorted_df_def edges_raw_def raw_obs_def
        iso3_def coerce_def sort_values_def)
  show ?thesis
    using boundary_fill [of "''B''" Co2 "\<lambda>_. None" edges_raw 2 7 "[None]" "[]"]
      boundary_fill [of "''B''" Co2 "\<lambda>_. None" edges_raw 1 7 "[]" "[None, None]"]
    by (simp add: s y numeral_2_eq_2 numeral_3_eq_3)
qed

section \<open>Properties of the bar-chart race\<close>

lemma filter_concat_groups:
  assumes "distinct ys" and "\<And>y' e. e \<in> set (g y') \<Longrightarrow> key e = y'"
  shows "filter (\<lambda>e. key e = y) (concat (map g ys)) = (if y \<in> set ys then g y else [])"
  using assms(1)
proof (induction ys)
  case Nil
  then show ?case by simp
next
  case (Cons y0 ys)
  have all: "filter (\<lambda>e. key e = y) (g y) = g y"
    using assms(2) by (simp add: filter_id_conv)
  have none: "y0 \<noteq> y \<Longrightarrow> filter (\<lambda>e. key e = y) (g y0) = []"
    using assms(2) by (auto simp: filter_empty_conv)
  from Cons show ?case
    by (cases "y0 = y") (auto simp: all none)
qed

lemma nlargest_year: "e \<in> set (nlargest n (annual_year y df)) \<Longrightarrow> a_year e = y"
  unfolding nlargest_def annual_year_def by (auto dest: in_set_takeD)

lemma bar_frame_eq: "bar_frame y df = nlargest 10 (annual_year y df)"
proof -
  have "bar_frame y df
        = (if y \<in> set (sort (remdups (map a_year (annual df))))
           then nlargest 10 (annual_year y df) else [])"
    unfolding bar_frame_def top10_each_def
    by (rule filter_concat_groups) (simp_all add: nlargest_year)
  moreover have "y \<notin> set (map a_year (annual df)) \<Longrightarrow> annual_year y df = []"
    by (auto simp: annual_year_def filter_empty_conv)
  ultimately show ?thesis
    by (auto simp: nlargest_def)
qed

lemma annual_keys:
  "map (\<lambda>e. (a_year e, a_country e)) (annual df) = sort (remdups (map (\<lambda>r. (year r, country r)) df))"
  by (simp add: annual_def a_year_def a_country_def comp_def case_prod_unfold)

lemma annual_year_distinct: "distinct (map a_country (annual_year y df))"
proof -
  have "distinct (map (\<lambda>e. (a_year e, a_country e)) (annual df))"
    by (simp add: annual_keys)
  then have "distinct (map (\<lambda>e. (a_year e, a_country e)) (annual_year y df))"
    unfolding annual_year_def by (rule distinct_map_filter)
  then show ?thesis
    unfolding annual_year_def distinct_map by (auto intro!: inj_onI dest: inj_onD)
qed

lemma annual_co2:
  "e \<in> set (annual df) \<Longrightarrow>
   a_co2 e = co2_sum (filter (\<lambda>r. year r = a_year e \<and> country r = a_country e) df)"
  by (auto simp: annual_def a_co2_def a_year_def a_country_def)

lemma race_annual:
  "annual_year 2000 (cleaned (\<lambda>_. None) race_raw)
   = [(2000, ''A'', 12), (2000, ''B'', 11), (2000, ''C'', 10), (2000, ''D'', 9),
      (2000, ''E'', 8), (2000, ''F'', 7), (2000, ''G'', 6), (2000, ''H'', 5),
      (2000, ''I'', 4), (2000, ''J'', 3), (2000, ''K'', 2), (2000, ''L'', 1)]"
  by (simp add: annual_year_def annual_def co2_sum_def a_year_def cleaned_def
      fill_def ffill_def interpolate_def group_series_def sorted_df_def race_raw_def
      raw_obs_def iso3_def coerce_def sort_values_def to_numeric_def)

lemma race_frame:
  "bar_frame 2000 (cleaned (\<lambda>_. None) race_raw)
   = [(2000, ''A'', 12), (2000, ''B'', 11), (2000, ''C'', 10), (2000, ''D'', 9),
      (2000, ''E'', 8), (2000, ''F'', 7), (2000, ''G'', 6), (2000, ''H'', 5),
      (2000, ''I'', 4), (2000, ''J'', 3)]"
  by (simp add: bar_frame_eq nlargest_def race_annual a_co2_def)

text \<open>
  C5. For every year \<open>y\<close>, the frame of the race for \<open>y\<close> has at most ten rows (ten, or
  all rows of the year when there are fewer), they are rows of the per-year totals of
  \<open>y\<close> with pairwise different countries, every row of the year that is left out has a
  total no larger than each row shown, and the total of a row is the sum of the
  \<^verbatim>\<open>co2\<close> entries of its country in that year.
\<close>

theorem bar_race_top10:
  "length (bar_frame y df) = min 10 (length (annual_year y df))
   \<and> set (bar_frame y df) \<subseteq> set (annual_year y df)
   \<and> distinct (map a_country (bar_frame y df))
   \<and> (\<forall>e \<in> set (bar_frame y df). \<forall>e' \<in> set (annual_year y df).
        e' \<notin> set (bar_frame y df) \<longrightarrow> a_co2 e' \<le> a_co2 e)
   \<and> (\<forall>e \<in> set (annual_year y df).
        a_co2 e = co2_sum (filter (\<lambda>r. year r = y \<and> country r = a_country e) df))"
proof -
  let ?A = "annual_year y df"
  let ?S = "sort_key (\<lambda>e. - a_co2 e) ?A"
  have bf: "bar_frame y df = take 10 ?S"
    by (simp add: bar_frame_eq nlargest_def)
  have len: "length (bar_frame y df) = min 10 (length ?A)"
    by (simp add: bf)
  have sub: "set (bar_frame y df) \<subseteq> set ?A"
    unfolding bf using set_take_subset [of 10 ?S] by simp
  have "mset (map a_country ?S) = mset (map a_country ?A)"
    by simp
  then have "distinct (map a_country ?S)"
    using annual_year_distinct [of y df] by (metis mset_eq_imp_distinct_iff)
  then have dist: "distinct (map a_country (bar_frame y df))"
    unfolding bf take_map [symmetric] by (rule distinct_take)
  have "sorted (map (\<lambda>e. - a_co2 e) (take 10 ?S @ drop 10 ?S))"
    by simp
  then have ord: "\<forall>e \<in> set (take 10 ?S). \<forall>e' \<in> set (drop 10 ?S). - a_co2 e \<le> - a_co2 e'"
    unfolding map_append sorted_append by auto
  have top: "\<forall>e \<in> set (bar_frame y df). \<forall>e' \<in> set ?A.
        e' \<notin> set (bar_frame y df) \<longrightarrow> a_co2 e' \<le> a_co2 e"
  proof (intro ballI impI)
    fix e e'
    assume e: "e \<in> set (bar_frame y df)" and e': "e' \<in> set ?A" "e' \<notin> set (bar_frame y df)"
    have "set ?S = set (take 10 ?S) \<union> set (drop 10 ?S)"
      by (metis append_take_drop_id set_append)
    with e' have "e' \<in> set (drop 10 ?S)" by (auto simp: bf)
    with ord e show "a_co2 e' \<le> a_co2 e" by (auto simp: bf)
  qed
  have tot: "\<forall>e \<in> set ?A. a_co2 e = co2_sum (filter (\<lambda>r. year r = y \<and> country r = a_country e) df)"
    by (auto simp: annual_year_def dest: annual_co2)
  from len sub dist top tot show ?thesis by blast
qed

theorem bar_race_top10_witness:
  "load_data (\<lambda>_. None) race_raw = Inr (cleaned (\<lambda>_. None) race_raw)
   \<and> length (annual_year 2000 (cleaned (\<lambda>_. None) race_raw)) = 12
   \<and> length (bar_frame 2000 (cleaned (\<lambda>_. None) race_raw)) = 10
   \<and> (2000, ''J'', 3) \<in> set (bar_frame 2000 (cleaned (\<lambda>_. None) race_raw))
   \<and> (2000, ''K'', 2) \<in> set (annual_year 2000 (cleaned (\<lambda>_. None) race_raw))
   \<and> (2000, ''K'', 2) \<notin> set (bar_frame 2000 (cleaned (\<lambda>_. None) race_raw))
   \<and> a_co2 (2000, ''K'', 2) \<le> a_co2 (2000, ''J'', 3)"
proof -
  have "filter iso3 race_raw \<noteq> []"
    by (simp add: race_raw_def raw_obs_def iso3_def)
  then have "load_data (\<lambda>_. None) race_raw = Inr (cleaned (\<lambda>_. None) race_raw)"
    by (rule load_data_returns)
  then show ?thesis
    using bar_race_top10 [of 2000 "cleaned (\<lambda>_. None) race_raw"]
    by (simp add: race_annual race_frame a_co2_def)
qed

section \<open>Properties of the bubble map\<close>

lemma col_max_Cons: "col_max (x # xs) = flt_max x (col_max xs)"
  by (simp add: col_max_def)

lemma col_max_bounds:
  "(col_max xs = NaN \<longrightarrow> (\<forall>x \<in> set xs. x = NaN))
   \<and> (col_max xs = NInf \<longrightarrow> (\<forall>a. Fin a \<notin> set xs))
   \<and> (\<forall>M. col_max xs = Fin M \<longrightarrow> (\<forall>a. Fin a \<in> set xs \<longrightarrow> a \<le> M))"
proof (induction xs)
  case Nil
  then show ?case by (simp add: col_max_def)
next
  case (Cons x xs)
  show ?case
    using Cons.IH
    by (cases x; cases "col_max xs") (auto simp: col_max_Cons)
qed

lemma col_max_Fin_ge: "col_max xs = Fin M \<Longrightarrow> Fin a \<in> set xs \<Longrightarrow> a \<le> M"
  using col_max_bounds [of xs] by blast

text \<open>
  C7. The claim: \<^verbatim>\<open>bubble_size\<close> is \<open>(co2 / max co2) * 60 + 5\<close>, so for
  \<open>0 \<le> co2 \<le> max co2\<close> it lies between 5 and 65. A table whose only row has
  \<^verbatim>\<open>co2 = 0\<close> satisfies the precondition with maximum 0, and the division \<open>0 / 0\<close> makes
  the \<^verbatim>\<open>bubble_size\<close> NaN.
\<close>

theorem bubble_size_counterexample:
  "load_data (\<lambda>_. None) zero_raw = Inr (cleaned (\<lambda>_. None) zero_raw)
   \<and> map (\<lambda>r. vals r Co2) (df_map (cleaned (\<lambda>_. None) zero_raw)) = [Some 0]
   \<and> co2_max (df_map (cleaned (\<lambda>_. None) zero_raw)) = Fin 0
   \<and> bubble_size (df_map (cleaned (\<lambda>_. None) zero_raw)) = [NaN]"
proof -
  have "filter iso3 zero_raw \<noteq> []"
    by (simp add: zero_raw_def raw_obs_def iso3_def)
  then have "load_data (\<lambda>_. None) zero_raw = Inr (cleaned (\<lambda>_. None) zero_raw)"
    by (rule load_data_returns)
  then show ?thesis
    by (simp add: bubble_size_def co2_max_def col_max_def of_val_def df_map_def dropna_def
        cleaned_def fill_def ffill_def interpolate_def group_series_def sorted_df_def
        zero_raw_def raw_obs_def iso3_def coerce_def sort_values_def to_numeric_def)
qed

text \<open>
  C7, as amended. When the maximum of \<^verbatim>\<open>co2\<close> over the bubble-map table is a positive
  number \<open>M\<close>, a row with \<^verbatim>\<open>co2 = v\<close>, \<open>0 \<le> v\<close>, has the \<^verbatim>\<open>bubble_size\<close>
  \<open>v / M * 60 + 5\<close>, with \<open>v \<le> M\<close>, and it lies between 5 and 65.
\<close>

theorem bubble_size_range:
  assumes "i < length (df_map df)"
    and "vals (df_map df ! i) Co2 = Some v"
    and "0 \<le> v"
    and "co2_max (df_map df) = Fin M"
    and "0 < M"
  shows "bubble_size (df_map df) ! i = Fin (v / M * 60 + 5)
         \<and> v \<le> M \<and> 5 \<le> v / M * 60 + 5 \<and> v / M * 60 + 5 \<le> 65"
proof -
  have "Fin v \<in> set (map (\<lambda>r. of_val (vals r Co2)) (df_map df))"
    using assms(1,2) by (force simp: of_val_def in_set_conv_nth)
  with assms(4) have le: "v \<le> M"
    unfolding co2_max_def by (rule col_max_Fin_ge)
  have val: "bubble_size (df_map df) ! i = Fin (v / M * 60 + 5)"
    using assms by (simp add: bubble_size_def of_val_def)
  from le assms(3,5) have "0 \<le> v / M" and "v / M \<le> 1"
    by simp_all
  moreover have "5 \<le> q * 60 + 5 \<and> q * 60 + 5 \<le> 65" if "0 \<le> q" and "q \<le> 1" for q :: real
    using that by simp
  ultimately have lo: "5 \<le> v / M * 60 + 5" and hi: "v / M * 60 + 5 \<le> 65"
    by blast+
  from val le lo hi show ?thesis
    by (intro conjI)
qed

theorem bubble_size_range_witness:
  "load_data (\<lambda>_. None) bubble_raw = Inr (cleaned (\<lambda>_. None) bubble_raw)
   \<and> map (\<lambda>r. vals r Co2) (df_map (cleaned (\<lambda>_. None) bubble_raw)) = [Some 50, Some 100]
   \<and> co2_max (df_map (cleaned (\<lambda>_. None) bubble_raw)) = Fin 100
   \<and> bubble_size (df_map (cleaned (\<lambda>_. None) bubble_raw)) ! 0 = Fin 35"
proof -
  have d: "map (\<lambda>r. vals r Co2) (df_map (cleaned (\<lambda>_. None) bubble_raw)) = [Some 50, Some 100]"
    by (simp add: df_map_def dropna_def
      cleaned_def fill_def ffill_def interpolate_def group_series_def
      sorted_df_def bubble_raw_def raw_obs_def iso3_def coerce_def sort_values_def to_numeric_def)
  have m: "co2_max (df_map (cleaned (\<lambda>_. None) bubble_raw)) = Fin 100"
    unfolding co2_max_def map_map [symmetric, of of_val "\<lambda>r. vals r Co2", unfolded comp_def] d
    by (simp add: col_max_def of_val_def)
  from d have l: "0 < length (df_map (cleaned (\<lambda>_. None) bubble_raw))"
    and v: "vals (df_map (cleaned (\<lambda>_. None) bubble_raw) ! 0) Co2 = Some 50"
    by (auto simp: map_eq_Cons_conv)
  have "filter iso3 bubble_raw \<noteq> []"
    by (simp add: bubble_raw_def raw_obs_def iso3_def)
  then have "load_data (\<lambda>_. None) bubble_raw = Inr (cleaned (\<lambda>_. None) bubble_raw)"
    by (rule load_data_returns)
  then show ?thesis
    using bubble_size_range [OF l v _ m] d m by simp
qed

section \<open>Properties of the country radar\<close>

lemma set_unique [simp]: "set (unique xs) = set xs"
  by (simp add: unique_def)




lemma loc_total: "set choices \<subseteq> set (options t) \<Longrightarrow> \<exists>sel. loc choices t = Inr sel"
  by (auto simp: loc_def list_all_iff)

lemma latest_rows_present:
  "r \<in> set (latest_rows y df) \<Longrightarrow>
   \<exists>a b g p. vals r Co2 = Some a \<and> vals r Co2_per_capita = Some b
     \<and> vals r Gdp = Some g \<and> vals r Population = Some p"
  by (auto simp: latest_rows_def dropna_def)




text \<open>
  C8. For a selection among the countries that the widget offers, the radar panel shows
  a chart exactly when the selection is not empty, and the message exactly when it is
  empty.
\<close>

theorem radar_chart_iff_selection:
  assumes "set choices \<subseteq> set (options (df_radar y df))"
  shows "(is_chart (radar_view choices (df_radar y df)) \<longleftrightarrow> choices \<noteq> [])
         \<and> (is_message (radar_view choices (df_radar y df)) \<longleftrightarrow> choices = [])"
proof -
  from loc_total [OF assms] obtain sel where "loc choices (df_radar y df) = Inr sel" ..
  then show ?thesis
    by (simp add: radar_view_def df_norm_def is_chart_def is_message_def)
qed

theorem radar_chart_iff_selection_witness:
  "load_data (\<lambda>_. None) radar_raw = Inr (cleaned (\<lambda>_. None) radar_raw)
   \<and> options (df_radar 2020 (cleaned (\<lambda>_. None) radar_raw)) = [''X'', ''Y'']
   \<and> is_chart (radar_view [''Y'', ''X''] (df_radar 2020 (cleaned (\<lambda>_. None) radar_raw)))
   \<and> \<not> is_message (radar_view [''Y'', ''X''] (df_radar 2020 (cleaned (\<lambda>_. None) radar_raw)))
   \<and> is_message (radar_view [] (df_radar 2020 (cleaned (\<lambda>_. None) radar_raw)))
   \<and> \<not> is_chart (radar_view [] (df_radar 2020 (cleaned (\<lambda>_. None) radar_raw)))"
proof -
  have o: "options (df_radar 2020 (cleaned (\<lambda>_. None) radar_raw)) = [''X'', ''Y'']"
    by (simp add: options_def unique_def df_radar_def latest_rows_def dropna_def
      cleaned_def fill_def ffill_def interpolate_def group_series_def
      sorted_df_def radar_raw_def raw_obs_def iso3_def coerce_def sort_values_def to_numeric_def)
  have "filter iso3 radar_raw \<noteq> []"
    by (simp add: radar_raw_def raw_obs_def iso3_def)
  then have "load_data (\<lambda>_. None) radar_raw = Inr (cleaned (\<lambda>_. None) radar_raw)"
    by (rule load_data_returns)
  then show ?thesis
    using radar_chart_iff_selection [of "[''Y'', ''X'']" 2020 "cleaned (\<lambda>_. None) radar_raw"]
      radar_chart_iff_selection [of "[]" 2020 "cleaned (\<lambda>_. None) radar_raw"]
    by (simp add: o)
qed

text \<open>
  C10. In every row of the latest-year frame, \<^verbatim>\<open>gdp\<close> and \<^verbatim>\<open>population\<close> are present
  and \<^verbatim>\<open>gdp_per_capita\<close> is their float quotient, computed without a guard: it is a
  finite number exactly when the population is not 0. There is a file with a row of
  population 0 on which the cleaner returns a table, and there the quotient is an
  infinity.
\<close>

theorem gdp_per_capita_unguarded:
  "(\<forall>r \<in> set (df_radar y df). \<exists>g p.
       vals (fst r) Gdp = Some g \<and> vals (fst r) Population = Some p
       \<and> snd r = flt_div (Fin g) (Fin p)
       \<and> ((\<exists>q. snd r = Fin q) \<longleftrightarrow> p \<noteq> 0))
   \<and> load_data (\<lambda>_. None) zero_pop_raw = Inr (cleaned (\<lambda>_. None) zero_pop_raw)
   \<and> (\<exists>r \<in> set (df_radar 2020 (cleaned (\<lambda>_. None) zero_pop_raw)).
         vals (fst r) Population = Some 0 \<and> snd r = PInf)"
proof -
  have "\<exists>g p. vals (fst r) Gdp = Some g \<and> vals (fst r) Population = Some p
       \<and> snd r = flt_div (Fin g) (Fin p) \<and> ((\<exists>q. snd r = Fin q) \<longleftrightarrow> p \<noteq> 0)"
    if "r \<in> set (df_radar y df)" for r
  proof -
    from that obtain r0 where r0: "r0 \<in> set (latest_rows y df)" "r = (r0, gdp_per_capita r0)"
      by (auto simp: df_radar_def)
    from latest_rows_present [OF r0(1)] obtain g p
      where "vals r0 Gdp = Some g" "vals r0 Population = Some p" by blast
    with r0(2) show ?thesis
      by (auto simp: gdp_per_capita_def of_val_def)
  qed
  moreover have "map (\<lambda>r. (vals (fst r) Population, snd r))
         (df_radar 2020 (cleaned (\<lambda>_. None) zero_pop_raw)) = [(Some 0, PInf)]"
    by (simp add: df_radar_def latest_rows_def gdp_per_capita_def of_val_def dropna_def
      cleaned_def fill_def ffill_def interpolate_def group_series_def
      sorted_df_def zero_pop_raw_def raw_obs_def iso3_def coerce_def sort_values_def to_numeric_def)
  then have "\<exists>r \<in> set (df_radar 2020 (cleaned (\<lambda>_. None) zero_pop_raw)).
         vals (fst r) Population = Some 0 \<and> snd r = PInf"
    by (auto simp: map_eq_Cons_conv)
  moreover have "filter iso3 zero_pop_raw \<noteq> []"
    by (simp add: zero_pop_raw_def raw_obs_def iso3_def)
  then have "load_data (\<lambda>_. None) zero_pop_raw = Inr (cleaned (\<lambda>_. None) zero_pop_raw)"
    by (rule load_data_returns)
  ultimately show ?thesis by blast
qed

theorem gdp_per_capita_unguarded_witness:
  "map (\<lambda>r. (vals (fst r) Gdp, vals (fst r) Population, snd r))
     (df_radar 2020 (cleaned (\<lambda>_. None) radar_raw))
   = [(Some 100, Some 10, Fin 10), (Some 100, Some 20, Fin 5)]
   \<and> map (\<lambda>r. (vals (fst r) Gdp, vals (fst r) Population, snd r))
     (df_radar 2020 (cleaned (\<lambda>_. None) zero_pop_raw))
   = [(Some 100, Some 0, PInf)]"
  using gdp_per_capita_unguarded [of 2020 "cleaned (\<lambda>_. None) radar_raw"]
  by (simp add: df_radar_def latest_rows_def gdp_per_capita_def of_val_def dropna_def
      cleaned_def fill_def ffill_def interpolate_def group_series_def
      sorted_df_def zero_pop_raw_def radar_raw_def raw_obs_def iso3_def coerce_def
      sort_values_def to_numeric_def)

section \<open>The render pass leaves the cleaned table alone\<close>

text \<open>What each panel does to the heap and what it shows.\<close>

lemma plot_heap [simp]: "heap (plot c st) = heap st"
  by (simp add: plot_def)

lemma rows_at_alloc:
  "rows_at (length (heap st)) (st\<lparr>heap := heap st @ [Table rs ex]\<rparr>) = rs"
  by (simp add: rows_at_def)

lemma bar_panel_heap: "heap (bar_panel a st) = heap st"
  by (simp add: bar_panel_def)

lemma bubble_panel_heap:
  "heap (bubble_panel a st)
   = heap st @ [Table (df_map (rows_at a st))
                  [(''bubble_size'', bubble_size (df_map (rows_at a st)))]]"
  unfolding bubble_panel_def alloc_def Let_def prod.case rows_at_alloc
  by (simp add: plot_def set_column_def)

lemma radar_panel_heap:
  "heap (radar_panel y choices a st)
   = heap st @ [Table (latest_rows y (rows_at a st))
                  [(''gdp_per_capita'', map gdp_per_capita (latest_rows y (rows_at a st)))]]"
  unfolding radar_panel_def alloc_def Let_def prod.case rows_at_alloc
  by (simp add: plot_def set_column_def split: sum.splits)

lemma sunburst_panel_heap:
  "heap (sunburst_panel y a st)
   = heap st @ [Melted (map (\<lambda>(c, src, v). (c, source_label src, v))
                          (melt (sunburst_rows y (rows_at a st))))]"
  unfolding sunburst_panel_def alloc_def Let_def prod.case
  by (simp add: plot_def set_source_def)

lemma bubble_panel_charts:
  "charts (bubble_panel a st)
   = charts st @ [Scatter_geo (df_map (rows_at a st)) (bubble_size (df_map (rows_at a st)))]"
  unfolding bubble_panel_def alloc_def Let_def prod.case
  by (simp add: plot_def set_column_def rows_at_def column_at_def)

lemma radar_table:
  "zip (rows_at (length (heap st))
          (set_column (length (heap st)) ''gdp_per_capita'' (map gdp_per_capita rs)
             (st\<lparr>heap := heap st @ [Table rs []]\<rparr>)))
       (column_at (length (heap st)) ''gdp_per_capita''
          (set_column (length (heap st)) ''gdp_per_capita'' (map gdp_per_capita rs)
             (st\<lparr>heap := heap st @ [Table rs []]\<rparr>)))
   = map (\<lambda>r. (r, gdp_per_capita r)) rs"
  by (simp add: set_column_def rows_at_def column_at_def zip_map2 zip_same_conv_map)

lemma radar_panel_charts:
  "charts (radar_panel y choices a st)
   = (case radar_view choices (df_radar y (rows_at a st)) of
        Inl e \<Rightarrow> charts st | Inr c \<Rightarrow> charts st @ [c])"
  unfolding radar_panel_def alloc_def Let_def prod.case rows_at_alloc radar_table
  by (simp add: df_radar_def plot_def set_column_def split: sum.splits)

lemma radar_panel_raised:
  "raised (radar_panel y choices a st)
   = (case radar_view choices (df_radar y (rows_at a st)) of
        Inl e \<Rightarrow> Some e | Inr c \<Rightarrow> raised st)"
  unfolding radar_panel_def alloc_def Let_def prod.case rows_at_alloc radar_table
  by (simp add: df_radar_def plot_def set_column_def split: sum.splits)

lemma render_keeps:
  assumes "a < length (heap st)"
  shows "a < length (heap (render viz choices a st))
         \<and> heap (render viz choices a st) ! a = heap st ! a"
proof (cases "latest (rows_at a st)")
  case (Inl e)
  with assms show ?thesis by (simp add: render_def)
next
  case (Inr y)
  define st1 where "st1 = (if Bar_Chart_Race \<in> set viz then bar_panel a st else st)"
  define st2 where "st2 = (if Bubble_Map \<in> set viz then bubble_panel a st1 else st1)"
  define st3 where "st3 = (if Country_Radar \<in> set viz then radar_panel y choices a st2 else st2)"
  define st4 where "st4 = (if raised st3 = None \<and> Source_Sunburst \<in> set viz
                           then sunburst_panel y a st3 else st3)"
  have 1: "a < length (heap st1) \<and> heap st1 ! a = heap st ! a"
    using assms by (simp add: st1_def bar_panel_heap)
  then have 2: "a < length (heap st2) \<and> heap st2 ! a = heap st ! a"
    by (simp add: st2_def bubble_panel_heap nth_append)
  then have 3: "a < length (heap st3) \<and> heap st3 ! a = heap st ! a"
    by (simp add: st3_def radar_panel_heap nth_append)
  then have 4: "a < length (heap st4) \<and> heap st4 ! a = heap st ! a"
    by (simp add: st4_def sunburst_panel_heap nth_append)
  have "render viz choices a st = st4"
    unfolding render_def Inr sum.case Let_def st4_def st3_def st2_def st1_def ..
  with 4 show ?thesis by simp
qed

text \<open>
  C9. After a render pass with any selection of panels and any selection of countries,
  on any table \<open>df\<close> at the address of the cleaned table (so on the table that the cleaner
  returned), the frame at that address is \<open>df\<close>, with its rows and without an added
  column: the columns \<^verbatim>\<open>bubble_size\<close> and \<^verbatim>\<open>gdp_per_capita\<close> are written to frames
  allocated by the panels.
\<close>

theorem render_keeps_cleaned_table:
  "heap (render viz choices 0 (init_state df)) ! 0 = Table df []
   \<and> rows_at 0 (render viz choices 0 (init_state df)) = df"
  using render_keeps [of 0 "init_state df" viz choices]
  by (simp add: init_state_def rows_at_def)

end
